theory Spec2Isabelle
  imports Complex_Main "HOL-Library.Multiset"
begin

section \<open>Python strings and title-casing\<close>

text \<open>
  A Python \<open>str\<close> is a sequence of Unicode code points; a code point is a natural number.
  \<open>ustr\<close> turns an ASCII literal into such a sequence.
\<close>

type_synonym pystr = "nat list"

definition ustr :: "string \<Rightarrow> pystr" where
  "ustr s = map of_char s"

text \<open>
  \<open>Series.str.title()\<close> applies Python's \<open>str.title\<close> to every text cell. CPython's
  loop (\<open>do_title\<close>) reads three entries of the Unicode database per code point: whether it
  is cased, its full lower-case mapping and its full title-case mapping. The database is not
  part of the repository; the three functions below are its entries for the code points
  below 256 (ASCII and Latin-1), for U+0130, LATIN CAPITAL LETTER I WITH DOT ABOVE, whose
  lower-case mapping is the two code points U+0069 U+0307, and for the code points those
  map to (U+0178, U+0307, U+039C, U+03BC). Every other code point is left unchanged and
  uncased here, so statements that depend on the tables are made for ASCII text.
\<close>

definition is_cased :: "nat \<Rightarrow> bool" where
  "is_cased c \<longleftrightarrow>
     (65 \<le> c \<and> c \<le> 90) \<or> (97 \<le> c \<and> c \<le> 122) \<or> c = 170 \<or> c = 181 \<or> c = 186 \<or>
     (192 \<le> c \<and> c \<le> 214) \<or> (216 \<le> c \<and> c \<le> 246) \<or> (248 \<le> c \<and> c \<le> 255) \<or>
     c = 304 \<or> c = 376 \<or> c = 924 \<or> c = 956"

definition to_lower_full :: "nat \<Rightarrow> pystr" where
  "to_lower_full c =
     (if (65 \<le> c \<and> c \<le> 90) \<or> (192 \<le> c \<and> c \<le> 214) \<or> (216 \<le> c \<and> c \<le> 222)
      then [c + 32]
      else if c = 304 then [105, 775]
      else if c = 376 then [255]
      else if c = 924 then [956]
      else [c])"

definition to_title_full :: "nat \<Rightarrow> pystr" where
  "to_title_full c =
     (if (97 \<le> c \<and> c \<le> 122) \<or> (224 \<le> c \<and> c \<le> 246) \<or> (248 \<le> c \<and> c \<le> 254)
      then [c - 32]
      else if c = 181 then [924]
      else if c = 223 then [83, 115]
      else if c = 255 then [376]
      else if c = 956 then [924]
      else [c])"

text \<open>
  \<open>do_title\<close>: a code point that follows a cased one is lower-cased, any other is
  title-cased; the flag is whether the code point just read (of the input) is cased.
\<close>

fun do_title :: "bool \<Rightarrow> pystr \<Rightarrow> pystr" where
  "do_title previous_is_cased [] = []"
| "do_title previous_is_cased (c # cs) =
     (if previous_is_cased then to_lower_full c else to_title_full c) @ do_title (is_cased c) cs"

definition title :: "pystr \<Rightarrow> pystr" where
  "title s = do_title False s"

text \<open>\<open>str.lower\<close>, used to say that two texts differ in case only.\<close>

definition lower :: "pystr \<Rightarrow> pystr" where
  "lower s = concat (map to_lower_full s)"

definition ascii :: "pystr \<Rightarrow> bool" where
  "ascii s \<longleftrightarrow> (\<forall>c \<in> set s. c < 128)"

section \<open>Cells, rows and tables\<close>

text \<open>
  A cell of a DataFrame read from a spreadsheet: missing (\<open>NaN\<close>/\<open>None\<close>), text, a number
  (an integer: fractions play no part below), or a date-time given as nanoseconds since the
  epoch.
\<close>

datatype cell = NA | Str pystr | Num int | Stamp int

text \<open>
  One row of the table, restricted to the eight columns \<open>process_data\<close> reads. The type of
  the date column changes along the pipeline: a raw cell at first, a \<open>datetime64[ns]\<close> value
  (\<open>None\<close> is \<open>NaT\<close>) after \<open>astype\<close>, a time stamp once it is the index.
\<close>

record 'd row =
  Funn_Status :: cell
  Channel :: cell
  Nationality :: cell
  Blk_State :: cell
  Funn_Monthcontractperiod :: cell
  Funnel_Bandwidth :: cell
  Funnel_SO_No :: cell
  Probability_90_Date :: 'd

type_synonym key = "cell \<times> cell \<times> cell \<times> cell \<times> cell"

text \<open>
  One row of the result after \<open>reset_index\<close>: the five group keys, the day (its midnight, in
  nanoseconds since the epoch) and the count that lands in the column \<open>Funnel SO No\<close>.
\<close>

record agg =
  agg_key :: key
  agg_date :: int
  agg_count :: nat

text \<open>
  The exceptions that occur below: the date parser refusing a text, a number or date-time
  that does not convert to \<open>datetime64[ns]\<close>, the \<open>.str\<close> accessor refusing a column,
  arithmetic on times leaving the 64-bit range, \<open>.query\<close> not finding its column, and a
  failed read or write of a file.
\<close>

datatype error =
    DateParseError pystr
  | OutOfBoundsDatetime int
  | AttributeError
  | OverflowError
  | UndefinedVariableError
  | OSError string

text \<open>
  What the logging calls put out. \<open>INFO msg\<close> is the line of \<open>logging.info(msg)\<close>.
  \<open>ERROR msg e\<close> is the line of \<open>logging.error(f"...{e}")\<close>: the message \<open>msg\<close> with the
  caught exception \<open>e\<close> formatted into it at \<open>{e}\<close>. \<open>Logging_error msg e\<close> is what
  \<open>logging.error(msg, e)\<close> gives when \<open>msg\<close> has no \<open>%\<close> placeholder for the argument
  \<open>e\<close>: formatting the record fails in the handler (\<open>TypeError: not all arguments
  converted during string formatting\<close>), the handler reports that failure on \<open>stderr\<close>, and
  no error line is written.
\<close>

datatype log = INFO string | ERROR string error | Logging_error string error

text \<open>Replacing the date column by one of another type.\<close>

definition with_date :: "'a row \<Rightarrow> 'b \<Rightarrow> 'b row" where
  "with_date r d =
     \<lparr>Funn_Status = Funn_Status r, Channel = Channel r, Nationality = Nationality r,
      Blk_State = Blk_State r, Funn_Monthcontractperiod = Funn_Monthcontractperiod r,
      Funnel_Bandwidth = Funnel_Bandwidth r, Funnel_SO_No = Funnel_SO_No r,
      Probability_90_Date = d\<rparr>"

section \<open>The stages of \<open>process_data\<close>\<close>

subsection \<open>Row filter\<close>

text \<open>
  \<open>df.loc[(df["Funn Status"] != "Lost") & (df[" Channel"].isin([...]))]\<close>: the comparison
  is true for every cell that is not the text \<open>Lost\<close>, a missing cell included.
\<close>

definition channels :: "cell list" where
  "channels = [Str (ustr ''ONLINE''), Str (ustr ''INSIDE SALES''), Str (ustr ''DEALER'')]"

definition keep :: "'d row \<Rightarrow> bool" where
  "keep r \<longleftrightarrow> Funn_Status r \<noteq> Str (ustr ''Lost'') \<and> Channel r \<in> set channels"

definition loc_filter :: "'d row list \<Rightarrow> 'd row list" where
  "loc_filter df = filter keep df"

subsection \<open>Conversion of the date column\<close>

text \<open>
  \<open>.astype({"Probability 90% Date": "datetime64[ns]"})\<close> converts with pandas' default
  \<open>errors="raise"\<close>. A missing cell becomes \<open>NaT\<close>. Every other cell goes through pandas'
  conversion to \<open>datetime64[ns]\<close>: the date parser for a text, a cast for a number (whose
  result depends on the dtype pandas gave the column), a range check for a date-time. That
  conversion is library code; it is a parameter here: \<open>parse c = None\<close> when it raises on the
  cell \<open>c\<close>, \<open>Some None\<close> when it gives \<open>NaT\<close>, \<open>Some (Some t)\<close> when it gives the time
  \<open>t\<close>, in nanoseconds since the epoch.
\<close>

type_synonym parser = "cell \<Rightarrow> int option option"

fun to_datetime64 :: "parser \<Rightarrow> cell \<Rightarrow> error + int option" where
  "to_datetime64 parse NA = Inr None"
| "to_datetime64 parse (Str s) =
     (case parse (Str s) of None \<Rightarrow> Inl (DateParseError s) | Some d \<Rightarrow> Inr d)"
| "to_datetime64 parse (Num n) =
     (case parse (Num n) of None \<Rightarrow> Inl (OutOfBoundsDatetime n) | Some d \<Rightarrow> Inr d)"
| "to_datetime64 parse (Stamp t) =
     (case parse (Stamp t) of None \<Rightarrow> Inl (OutOfBoundsDatetime t) | Some d \<Rightarrow> Inr d)"

fun astype :: "parser \<Rightarrow> cell row list \<Rightarrow> error + int option row list" where
  "astype parse [] = Inr []"
| "astype parse (r # rs) =
     (case to_datetime64 parse (Probability_90_Date r) of
        Inl e \<Rightarrow> Inl e
      | Inr d \<Rightarrow> (case astype parse rs of Inl e \<Rightarrow> Inl e | Inr rs' \<Rightarrow> Inr (with_date r d # rs')))"

subsection \<open>Title-cased nationality\<close>

text \<open>
  \<open>.assign(Nationality=df["Nationality"].str.title())\<close> reads the column of the whole,
  unfiltered table. The \<open>.str\<close> accessor raises \<open>AttributeError\<close> unless the column holds
  text: pandas gives a column the dtype its cells call for, so a non-empty column whose
  cells are all missing or numbers is a float column, one whose cells are all missing or
  date-times is a \<open>datetime64\<close> column, and both are refused. On an accepted column
  \<open>title\<close> maps every text cell and turns every other cell into a missing one. The new
  column is aligned with the filtered rows by index, so each row gets the value computed
  from its own cell.
\<close>

fun is_Num_or_NA :: "cell \<Rightarrow> bool" where
  "is_Num_or_NA NA = True"
| "is_Num_or_NA (Num n) = True"
| "is_Num_or_NA c = False"

fun is_Stamp_or_NA :: "cell \<Rightarrow> bool" where
  "is_Stamp_or_NA NA = True"
| "is_Stamp_or_NA (Stamp t) = True"
| "is_Stamp_or_NA c = False"

definition str_accessor_ok :: "cell list \<Rightarrow> bool" where
  "str_accessor_ok col \<longleftrightarrow>
     col = [] \<or> \<not> (list_all is_Num_or_NA col \<or> list_all is_Stamp_or_NA col)"

fun str_title :: "cell \<Rightarrow> cell" where
  "str_title (Str s) = Str (title s)"
| "str_title c = NA"

definition assign_Nationality :: "cell row list \<Rightarrow> 'd row list \<Rightarrow> error + 'd row list" where
  "assign_Nationality df rows =
     (if str_accessor_ok (map Nationality df)
      then Inr (map (\<lambda>r. r\<lparr>Nationality := str_title (Nationality r)\<rparr>) rows)
      else Inl AttributeError)"

subsection \<open>Dropping missing dates and indexing by date\<close>

text \<open>\<open>.dropna(subset="Probability 90% Date").set_index("Probability 90% Date")\<close>\<close>

definition dropna :: "int option row list \<Rightarrow> int option row list" where
  "dropna rows = filter (\<lambda>r. Probability_90_Date r \<noteq> None) rows"

definition set_index :: "int option row list \<Rightarrow> int row list" where
  "set_index rows = map (\<lambda>r. with_date r (the (Probability_90_Date r))) rows"

subsection \<open>Grouping, daily resampling and counting\<close>

text \<open>
  \<open>.groupby([...])\<close> with pandas' default \<open>dropna=True\<close> leaves out every row that has a
  missing cell among its five keys; the rows of one group are those with equal keys.
  pandas lists the groups in key order: the keys are compared column by column, texts by
  their code points, numbers and date-times by value, and, in a column of mixed cells,
  numbers before date-times before texts.
\<close>

definition key_of :: "'d row \<Rightarrow> key" where
  "key_of r = (Channel r, Blk_State r, Funn_Monthcontractperiod r, Funnel_Bandwidth r, Nationality r)"

fun key_complete :: "key \<Rightarrow> bool" where
  "key_complete (a, b, c, d, e) \<longleftrightarrow> a \<noteq> NA \<and> b \<noteq> NA \<and> c \<noteq> NA \<and> d \<noteq> NA \<and> e \<noteq> NA"

fun str_less :: "pystr \<Rightarrow> pystr \<Rightarrow> bool" where
  "str_less [] [] = False"
| "str_less [] (y # ys) = True"
| "str_less (x # xs) [] = False"
| "str_less (x # xs) (y # ys) = (x < y \<or> (x = y \<and> str_less xs ys))"

fun cell_rank :: "cell \<Rightarrow> nat" where
  "cell_rank (Num n) = 0"
| "cell_rank (Stamp t) = 1"
| "cell_rank (Str s) = 2"
| "cell_rank NA = 3"

fun cell_less :: "cell \<Rightarrow> cell \<Rightarrow> bool" where
  "cell_less (Num a) (Num b) = (a < b)"
| "cell_less (Stamp a) (Stamp b) = (a < b)"
| "cell_less (Str s) (Str t) = str_less s t"
| "cell_less x y = (cell_rank x < cell_rank y)"

fun key_less :: "key \<Rightarrow> key \<Rightarrow> bool" where
  "key_less (a, b, c, d, e) (a', b', c', d', e') =
     (cell_less a a' \<or> (a = a' \<and>
       (cell_less b b' \<or> (b = b' \<and>
         (cell_less c c' \<or> (c = c' \<and>
           (cell_less d d' \<or> (d = d' \<and> cell_less e e'))))))))"

fun insert_key :: "key \<Rightarrow> key list \<Rightarrow> key list" where
  "insert_key k [] = [k]"
| "insert_key k (x # xs) = (if key_less x k then x # insert_key k xs else k # x # xs)"

fun sort_keys :: "key list \<Rightarrow> key list" where
  "sort_keys [] = []"
| "sort_keys (k # ks) = insert_key k (sort_keys ks)"

definition group_keys :: "'d row list \<Rightarrow> key list" where
  "group_keys rows = sort_keys (remdups (filter key_complete (map key_of rows)))"

definition get_group :: "key \<Rightarrow> 'd row list \<Rightarrow> 'd row list" where
  "get_group k rows = filter (\<lambda>r. key_of r = k) rows"

text \<open>
  \<open>.resample("d")["Funnel SO No"].count()\<close> on one group: one bucket for every calendar day
  from the day of the group's earliest date to the day of its latest, labelled with the
  day's midnight; the count of a bucket is the number of the group's rows on that day whose
  \<open>Funnel SO No\<close> is not missing. A day of the span without such a row is a bucket with
  count 0.
\<close>

definition ns_per_day :: int where
  "ns_per_day = 86400000000000"

definition day_of :: "int \<Rightarrow> int" where
  "day_of t = t div ns_per_day"

definition count_on :: "int \<Rightarrow> int row list \<Rightarrow> nat" where
  "count_on d g = length (filter (\<lambda>r. day_of (Probability_90_Date r) = d \<and> Funnel_SO_No r \<noteq> NA) g)"

definition resample_count :: "int row list \<Rightarrow> (int \<times> nat) list" where
  "resample_count g =
     (case map (\<lambda>r. day_of (Probability_90_Date r)) g of
        [] \<Rightarrow> []
      | d # ds \<Rightarrow> map (\<lambda>i. (i * ns_per_day, count_on i g)) [fold min ds d .. fold max ds d])"

text \<open>
  When the resampler is set up on a frame that has rows, pandas computes the edges of the
  frame's whole span as \<open>datetime64[ns]\<close> times: the midnight of its earliest day and the
  midnight after its latest day. A time is in range when it lies strictly between
  \<open>-2^63\<close> and \<open>2^63\<close> nanoseconds; an edge out of range raises \<open>OverflowError\<close>.
\<close>

definition in_bounds :: "int \<Rightarrow> bool" where
  "in_bounds t \<longleftrightarrow> - (2 ^ 63) < t \<and> t < 2 ^ 63"

definition span_in_bounds :: "int row list \<Rightarrow> bool" where
  "span_in_bounds rows =
     (case map (\<lambda>r. day_of (Probability_90_Date r)) rows of
        [] \<Rightarrow> True
      | d # ds \<Rightarrow> in_bounds (fold min ds d * ns_per_day) \<and>
                  in_bounds ((fold max ds d + 1) * ns_per_day))"

text \<open>
  \<open>.reset_index()\<close>: one flat row per group and bucket, the groups in key order. When the
  frame has rows but every one of them lacks a key, so that no group is formed, pandas
  returns a frame without the column \<open>Funnel SO No\<close>, and \<open>.query\<close>, which comes next,
  raises \<open>UndefinedVariableError\<close>; the exception is raised here. A frame without rows
  gives a result without rows.
\<close>

definition groupby_resample_count :: "int row list \<Rightarrow> error + agg list" where
  "groupby_resample_count rows =
     (if rows = [] then Inr []
      else if \<not> span_in_bounds rows then Inl OverflowError
      else if group_keys rows = [] then Inl UndefinedVariableError
      else Inr (concat (map (\<lambda>k. map (\<lambda>(t, n). \<lparr>agg_key = k, agg_date = t, agg_count = n\<rparr>)
                                     (resample_count (get_group k rows)))
                            (group_keys rows))))"

subsection \<open>Dropping empty buckets, sorting\<close>

text \<open>\<open>.query("`Funnel SO No` > 0")\<close>\<close>

definition query_positive :: "agg list \<Rightarrow> agg list" where
  "query_positive t = filter (\<lambda>a. 0 < agg_count a) t"

text \<open>
  \<open>sort_values("Probability 90% Date", ascending=False)\<close> and, on return,
  \<open>sort_values("Probability 90% Date")\<close>. pandas' default sort is not stable: rows with
  equal dates may come out in any order. The model fixes the order a stable sort gives
  (pandas sorts descending by reversing, sorting ascending and reversing again); nothing
  below depends on the order among equal dates.
\<close>

definition sort_values_desc :: "agg list \<Rightarrow> agg list" where
  "sort_values_desc t = rev (sort_key agg_date (rev t))"

definition sort_values :: "agg list \<Rightarrow> agg list" where
  "sort_values t = sort_key agg_date t"

subsection \<open>The function\<close>

text \<open>
  The method chain inside \<open>try\<close> up to \<open>set_index\<close>: the filtered, typed and
  renamed rows indexed by their date, or the exception raised on the way. \<open>astype\<close> runs
  before the argument of \<open>assign\<close> is evaluated.
\<close>

definition indexed_df :: "parser \<Rightarrow> cell row list \<Rightarrow> error + int row list" where
  "indexed_df parse df =
     (case astype parse (loc_filter df) of
        Inl e \<Rightarrow> Inl e
      | Inr typed \<Rightarrow>
         (case assign_Nationality df typed of
            Inl e \<Rightarrow> Inl e
          | Inr named \<Rightarrow> Inr (set_index (dropna named))))"

text \<open>The whole chain: the value of \<open>processed_df\<close>, or the exception.\<close>

definition processed_df :: "parser \<Rightarrow> cell row list \<Rightarrow> error + agg list" where
  "processed_df parse df =
     (case indexed_df parse df of
        Inl e \<Rightarrow> Inl e
      | Inr rows \<Rightarrow>
         (case groupby_resample_count rows of
            Inl e \<Rightarrow> Inl e
          | Inr counted \<Rightarrow> Inr (sort_values_desc (query_positive counted))))"

text \<open>
  \<open>process_data\<close> returns the log lines it wrote and its result: \<open>None\<close> is Python's
  \<open>None\<close>, returned after the exception was caught and logged.
\<close>

definition process_data :: "parser \<Rightarrow> cell row list \<Rightarrow> log list \<times> agg list option" where
  "process_data parse df =
     (case processed_df parse df of
        Inr t \<Rightarrow>
          ([INFO ''Processing data...'', INFO ''Data processed successfully''],
           Some (sort_values t))
      | Inl e \<Rightarrow>
          ([INFO ''Processing data...'', ERROR ''Error processing data: {e}'' e], None))"

section \<open>Loader and writer\<close>

text \<open>
  \<open>read_bo\<close> and \<open>export_to_csv\<close> wrap one library call each in \<open>try\<close> / \<open>except
  Exception\<close>. The calls (\<open>pd.read_excel\<close>, \<open>DataFrame.to_csv\<close>) are parameters: the
  first gives the table or the exception it raised, the second the exception it raised, if
  any. Neither function has a \<open>return\<close> in its handler, so a caught failure makes
  \<open>read_bo\<close> return \<open>None\<close>; \<open>export_to_csv\<close> returns \<open>None\<close> always. Both handlers
  call \<open>logging.error(msg, e)\<close> with a message that has no placeholder for \<open>e\<close>.
\<close>

definition read_bo :: "(string \<Rightarrow> error + 'df) \<Rightarrow> string \<Rightarrow> log list \<times> 'df option" where
  "read_bo read_excel file_path =
     (case read_excel file_path of
        Inr df \<Rightarrow> ([INFO ''Reading file...'', INFO ''File read successfully''], Some df)
      | Inl e \<Rightarrow>
          ([INFO ''Reading file...'',
            Logging_error ''Error reading file, maybe check VPN. Error: '' e],
           None))"

definition export_to_csv :: "('df \<Rightarrow> string \<Rightarrow> error option) \<Rightarrow> 'df \<Rightarrow> string \<Rightarrow> log list \<times> unit" where
  "export_to_csv to_csv df file_path =
     (case to_csv df file_path of
        None \<Rightarrow> ([INFO ''Exporting to CSV...'', INFO ''Exported successfully''], ())
      | Some e \<Rightarrow>
          ([INFO ''Exporting to CSV...'', Logging_error ''Error exporting to CSV: '' e], ()))"

section \<open>Conversion of cell values for the sheet\<close>

text \<open>
  A float is \<open>NaN\<close> or a number. \<open>pyval\<close> is what \<open>convert_to_serializable\<close> is given: a
  NumPy scalar or array, or a plain Python value; \<open>pyobj\<close> is what it returns.
\<close>

datatype pyfloat = NaN | Number real

datatype pyval =
    np_integer int
  | np_floating pyfloat
  | np_ndarray "pyval list"
  | np_bool bool
  | val_None
  | val_NaT
  | val_float pyfloat
  | val_int int
  | val_bool bool
  | val_str pystr

datatype pyobj =
    PyInt int
  | PyFloat pyfloat
  | PyBool bool
  | PyStr pystr
  | PyList "pyobj list"
  | PyNone
  | PyNaT

text \<open>
  The Python object of a value: itself for a plain Python value; for a NumPy value what
  \<open>int()\<close>, \<open>float()\<close>, \<open>bool()\<close> and \<open>ndarray.tolist()\<close> make of it (NumPy scalars
  become Python scalars, nested arrays lists).
\<close>

fun py_object :: "pyval \<Rightarrow> pyobj" where
  "py_object (np_integer n) = PyInt n"
| "py_object (np_floating f) = PyFloat f"
| "py_object (np_ndarray xs) = PyList (map py_object xs)"
| "py_object (np_bool b) = PyBool b"
| "py_object val_None = PyNone"
| "py_object val_NaT = PyNaT"
| "py_object (val_float f) = PyFloat f"
| "py_object (val_int n) = PyInt n"
| "py_object (val_bool b) = PyBool b"
| "py_object (val_str s) = PyStr s"

text \<open>\<open>pd.isna\<close> on a scalar.\<close>

fun isna :: "pyval \<Rightarrow> bool" where
  "isna val_None = True"
| "isna val_NaT = True"
| "isna (val_float f) = (f = NaN)"
| "isna (np_floating f) = (f = NaN)"
| "isna v = False"

text \<open>
  The branches in the order of the source: the four \<open>isinstance\<close> tests come first, the
  test for a missing value after them, and \<open>return val\<close> last (there \<open>val\<close> is a plain
  Python value).
\<close>

fun convert_to_serializable :: "pyval \<Rightarrow> pyobj" where
  "convert_to_serializable (np_integer n) = PyInt n"
| "convert_to_serializable (np_floating f) = PyFloat f"
| "convert_to_serializable (np_ndarray xs) = PyList (map py_object xs)"
| "convert_to_serializable (np_bool b) = PyBool b"
| "convert_to_serializable v = (if isna v then PyStr [] else py_object v)"

section \<open>What the specification counts\<close>

text \<open>
  A raw record matches a result row when it passes the row filter, its date converts to a
  time on the row's day, and its five keys, with the nationality title-cased, are the row's
  keys. \<open>matching_records\<close> is the number of such records; \<open>counted_records\<close> the number of
  those whose \<open>Funnel SO No\<close> is not missing.
\<close>

definition falls_on :: "parser \<Rightarrow> cell \<Rightarrow> int \<Rightarrow> bool" where
  "falls_on parse c d =
     (case to_datetime64 parse c of
        Inr (Some t) \<Rightarrow> day_of t * ns_per_day = d
      | _ \<Rightarrow> False)"

definition matches :: "parser \<Rightarrow> agg \<Rightarrow> cell row \<Rightarrow> bool" where
  "matches parse a r \<longleftrightarrow>
     keep r \<and>
     (Channel r, Blk_State r, Funn_Monthcontractperiod r, Funnel_Bandwidth r,
      str_title (Nationality r)) = agg_key a \<and>
     falls_on parse (Probability_90_Date r) (agg_date a)"

definition matching_records :: "parser \<Rightarrow> cell row list \<Rightarrow> agg \<Rightarrow> nat" where
  "matching_records parse df a = length (filter (matches parse a) df)"

definition counted_records :: "parser \<Rightarrow> cell row list \<Rightarrow> agg \<Rightarrow> nat" where
  "counted_records parse df a =
     length (filter (\<lambda>r. matches parse a r \<and> Funnel_SO_No r \<noteq> NA) df)"

section \<open>The rows that reach the grouping\<close>

text \<open>
  A record is dated when its date cell converts to a time (not to \<open>NaT\<close>, and without an
  exception). \<open>indexed_row\<close> is what the chain makes of a kept, dated record before
  grouping: the nationality title-cased, the date converted.
\<close>

definition dated :: "parser \<Rightarrow> cell row \<Rightarrow> bool" where
  "dated parse r =
     (case to_datetime64 parse (Probability_90_Date r) of Inr (Some t) \<Rightarrow> True | _ \<Rightarrow> False)"

definition indexed_row :: "parser \<Rightarrow> cell row \<Rightarrow> int row" where
  "indexed_row parse r =
     with_date (r\<lparr>Nationality := str_title (Nationality r)\<rparr>)
       (the (projr (to_datetime64 parse (Probability_90_Date r))))"

text \<open>
  A record whose date cell converts to \<open>NaT\<close>: a missing cell, or a cell the conversion
  reads as \<open>NaT\<close>.
\<close>

definition null_date :: "parser \<Rightarrow> cell row \<Rightarrow> bool" where
  "null_date parse r \<longleftrightarrow> to_datetime64 parse (Probability_90_Date r) = Inr None"

section \<open>Worked inputs\<close>

text \<open>
  A conversion for the worked inputs. It reads the two ISO dates used below (midnight UTC
  of 1 and 3 January 2024), reads the text \<open>NaT\<close> as the missing time and raises on any
  other text; it takes a date-time in range as it is and raises on one out of range; it
  converts a number as pandas converts a column of 64-bit integers, signed or unsigned:
  the bit pattern is read as a signed count of nanoseconds, the least one being \<open>NaT\<close>.
\<close>

fun example_parser :: parser where
  "example_parser (Str s) =
     (if s = ustr ''2024-01-01'' then Some (Some 1704067200000000000)
      else if s = ustr ''2024-01-03'' then Some (Some 1704240000000000000)
      else if s = ustr ''NaT'' then Some None
      else None)"
| "example_parser (Stamp t) = (if in_bounds t then Some (Some t) else None)"
| "example_parser (Num n) =
     (if in_bounds n then Some (Some n)
      else if n = - (2 ^ 63) \<or> n = 2 ^ 63 then Some None
      else if 2 ^ 63 < n \<and> n < 2 ^ 64 then Some (Some (n - 2 ^ 64))
      else None)"
| "example_parser NA = Some None"

text \<open>
  A raw record of the specification's scenario: state \<open>A\<close>, period \<open>12mo\<close>, bandwidth
  \<open>100mbps\<close>; status, channel, nationality, order number and date are given.
\<close>

definition record_of :: "cell \<Rightarrow> cell \<Rightarrow> cell \<Rightarrow> cell \<Rightarrow> cell \<Rightarrow> cell row" where
  "record_of status chan nation order_no date =
     \<lparr>Funn_Status = status, Channel = chan, Nationality = nation,
      Blk_State = Str (ustr ''A''), Funn_Monthcontractperiod = Str (ustr ''12mo''),
      Funnel_Bandwidth = Str (ustr ''100mbps''), Funnel_SO_No = order_no,
      Probability_90_Date = date\<rparr>"

definition john_doe_key :: key where
  "john_doe_key =
     (Str (ustr ''ONLINE''), Str (ustr ''A''), Str (ustr ''12mo''), Str (ustr ''100mbps''),
      Str (ustr ''John Doe''))"

text \<open>The scenario of the specification: two open records on one day and a lost one.\<close>

definition scenario_table :: "cell row list" where
  "scenario_table =
     [record_of (Str (ustr ''Open'')) (Str (ustr ''ONLINE'')) (Str (ustr ''john doe'')) (Num 1)
        (Str (ustr ''2024-01-01'')),
      record_of (Str (ustr ''Open'')) (Str (ustr ''ONLINE'')) (Str (ustr ''JOHN DOE'')) (Num 2)
        (Str (ustr ''2024-01-01'')),
      record_of (Str (ustr ''Lost'')) (Str (ustr ''ONLINE'')) (Str (ustr ''x'')) (Num 3)
        (Str (ustr ''2024-01-01''))]"

text \<open>The same two open records, the second without an order number.\<close>

definition missing_order_table :: "cell row list" where
  "missing_order_table =
     [record_of (Str (ustr ''Open'')) (Str (ustr ''ONLINE'')) (Str (ustr ''john doe'')) (Num 1)
        (Str (ustr ''2024-01-01'')),
      record_of (Str (ustr ''Open'')) (Str (ustr ''ONLINE'')) (Str (ustr ''JOHN DOE'')) NA
        (Str (ustr ''2024-01-01''))]"

text \<open>Two records of one group two days apart, and a record without a date.\<close>

definition gap_table :: "cell row list" where
  "gap_table =
     [record_of (Str (ustr ''Open'')) (Str (ustr ''ONLINE'')) (Str (ustr ''john doe'')) (Num 1)
        (Str (ustr ''2024-01-03'')),
      record_of (Str (ustr ''Open'')) (Str (ustr ''ONLINE'')) (Str (ustr ''John Doe'')) (Num 2)
        (Str (ustr ''2024-01-01'')),
      record_of NA (Str (ustr ''DEALER'')) (Str (ustr ''x'')) (Num 3) NA]"

text \<open>One open record whose date is a text no parser reads.\<close>

definition bad_date_table :: "cell row list" where
  "bad_date_table =
     [record_of (Str (ustr ''Open'')) (Str (ustr ''ONLINE'')) (Str (ustr ''john doe'')) (Num 1)
        (Str (ustr ''not a date''))]"

text \<open>One lost record whose nationality is missing: the column holds no text.\<close>

definition no_text_table :: "cell row list" where
  "no_text_table =
     [record_of (Str (ustr ''Lost'')) (Str (ustr ''ONLINE'')) NA (Num 1)
        (Str (ustr ''2024-01-01''))]"

text \<open>The result rows of the worked inputs.\<close>

definition john_doe_row :: "int \<Rightarrow> nat \<Rightarrow> agg" where
  "john_doe_row t n = \<lparr>agg_key = john_doe_key, agg_date = t, agg_count = n\<rparr>"

text \<open>Two groups; the group that comes first in key order has the later date.\<close>

definition two_group_table :: "cell row list" where
  "two_group_table =
     [record_of (Str (ustr ''Open'')) (Str (ustr ''ONLINE'')) (Str (ustr ''john doe'')) (Num 1)
        (Str (ustr ''2024-01-01'')),
      record_of (Str (ustr ''Open'')) (Str (ustr ''DEALER'')) (Str (ustr ''john doe'')) (Num 2)
        (Str (ustr ''2024-01-03''))]"

definition dealer_row :: "int \<Rightarrow> nat \<Rightarrow> agg" where
  "dealer_row t n =
     \<lparr>agg_key = (Str (ustr ''DEALER''), Str (ustr ''A''), Str (ustr ''12mo''),
                 Str (ustr ''100mbps''), Str (ustr ''John Doe'')),
      agg_date = t, agg_count = n\<rparr>"

text \<open>A spreadsheet that cannot be read and a file that cannot be written.\<close>

definition unreadable :: "string \<Rightarrow> error + cell row list" where
  "unreadable file_path = Inl (OSError file_path)"

definition unwritable :: "agg list \<Rightarrow> string \<Rightarrow> error option" where
  "unwritable t file_path = Some (OSError file_path)"

text \<open>
  One open record with a date but without a state; one open record dated on the last day
  \<open>datetime64[ns]\<close> holds; one open record whose date is the number \<open>2^63\<close>.
\<close>

definition no_group_table :: "cell row list" where
  "no_group_table =
     [(record_of (Str (ustr ''Open'')) (Str (ustr ''ONLINE'')) (Str (ustr ''john doe'')) (Num 1)
         (Str (ustr ''2024-01-01''))) \<lparr>Blk_State := NA\<rparr>]"

definition last_day_table :: "cell row list" where
  "last_day_table =
     [record_of (Str (ustr ''Open'')) (Str (ustr ''ONLINE'')) (Str (ustr ''john doe'')) (Num 1)
        (Stamp 9223372036854775807)]"

definition wrapped_date_table :: "cell row list" where
  "wrapped_date_table =
     [record_of (Str (ustr ''Open'')) (Str (ustr ''ONLINE'')) (Str (ustr ''john doe'')) (Num 1)
        (Num 9223372036854775808)]"

section \<open>Title-casing\<close>

lemma ascii_Cons: "ascii (c # cs) \<longleftrightarrow> c < 128 \<and> ascii cs"
  by (simp add: ascii_def)

lemma lower_ascii:
  assumes "c < 128"
  obtains l where "to_lower_full c = [l]" "to_lower_full l = [l]" "to_title_full l = to_title_full c"
    "is_cased l = is_cased c"
proof (cases "65 \<le> c \<and> c \<le> 90")
  case True
  then have "to_lower_full c = [c + 32]" "to_lower_full (c + 32) = [c + 32]"
    "to_title_full (c + 32) = to_title_full c" "is_cased (c + 32) = is_cased c"
    by (simp_all add: to_lower_full_def to_title_full_def is_cased_def)
  then show ?thesis using that by blast
next
  case False
  with assms have "to_lower_full c = [c]" by (simp add: to_lower_full_def)
  then show ?thesis using that by blast
qed

lemma title_ascii_char:
  assumes "c < 128"
  obtains u where "to_title_full c = [u]" "to_title_full u = [u]" "is_cased u = is_cased c"
proof (cases "97 \<le> c \<and> c \<le> 122")
  case True
  then have "to_title_full c = [c - 32]" "to_title_full (c - 32) = [c - 32]"
    "is_cased (c - 32) = is_cased c"
    by (auto simp: to_title_full_def is_cased_def)
  then show ?thesis using that by blast
next
  case False
  with assms have "to_title_full c = [c]" by (auto simp: to_title_full_def)
  then show ?thesis using that by blast
qed

lemma do_title_idem: "ascii s \<Longrightarrow> do_title b (do_title b s) = do_title b s"
proof (induction s arbitrary: b)
  case Nil
  show ?case by simp
next
  case (Cons c cs)
  from Cons.prems have c: "c < 128" and cs: "ascii cs" by (simp_all add: ascii_Cons)
  have ih: "do_title (is_cased c) (do_title (is_cased c) cs) = do_title (is_cased c) cs"
    using Cons.IH cs by simp
  show ?case
  proof (cases b)
    case True
    from c obtain l where "to_lower_full c = [l]" "to_lower_full l = [l]" "is_cased l = is_cased c"
      by (rule lower_ascii)
    with True ih show ?thesis by simp
  next
    case False
    from c obtain u where "to_title_full c = [u]" "to_title_full u = [u]" "is_cased u = is_cased c"
      by (rule title_ascii_char)
    with False ih show ?thesis by simp
  qed
qed

lemma do_title_lower: "ascii s \<Longrightarrow> do_title b (lower s) = do_title b s"
proof (induction s arbitrary: b)
  case Nil
  show ?case by (simp add: lower_def)
next
  case (Cons c cs)
  from Cons.prems have c: "c < 128" and cs: "ascii cs" by (simp_all add: ascii_Cons)
  have ih: "do_title (is_cased c) (lower cs) = do_title (is_cased c) cs"
    using Cons.IH cs by simp
  from c obtain l where l: "to_lower_full c = [l]" "to_lower_full l = [l]"
    "to_title_full l = to_title_full c" "is_cased l = is_cased c"
    by (rule lower_ascii)
  have "lower (c # cs) = l # lower cs" using l by (simp add: lower_def)
  with l ih show ?case by simp
qed

text \<open>
  Claim C6, as amended. Title-casing is idempotent on every ASCII text, and two ASCII
  texts that differ in case only (their lower-case forms are equal) get the same
  title-cased nationality cell, hence the same group key.
\<close>

theorem title_ascii_idempotent:
  "(ascii s \<longrightarrow> title (title s) = title s) \<and>
   (ascii s \<and> ascii t \<and> lower s = lower t \<longrightarrow> str_title (Str s) = str_title (Str t))"
proof -
  have "title s = title t" if "ascii s" "ascii t" "lower s = lower t"
    using do_title_lower [of s False] do_title_lower [of t False] that by (simp add: title_def)
  then show ?thesis by (simp add: title_def do_title_idem)
qed

theorem title_ascii_idempotent_witness:
  "ascii (ustr ''john doe'') \<and> ascii (ustr ''JOHN DOE'') \<and>
   lower (ustr ''john doe'') = lower (ustr ''JOHN DOE'') \<and>
   title (title (ustr ''john doe'')) = title (ustr ''john doe'') \<and>
   str_title (Str (ustr ''john doe'')) = Str (ustr ''John Doe'') \<and>
   str_title (Str (ustr ''JOHN DOE'')) = Str (ustr ''John Doe'')"
  using title_ascii_idempotent [of "ustr ''john doe''" "ustr ''JOHN DOE''"]
  by (simp add: ascii_def ustr_def lower_def to_lower_full_def title_def to_title_full_def
      is_cased_def)

text \<open>
  Claim C6 as stated fails: title-casing the text A, U+0130, b gives A, i, U+0307, b, and
  title-casing that gives A, i, U+0307, B, because the combining dot U+0307 is not cased
  and the letter after it starts a new word.
\<close>

theorem title_not_idempotent:
  "title [65, 304, 98] = [65, 105, 775, 98] \<and> title (title [65, 304, 98]) = [65, 105, 775, 66]"
  by (simp add: title_def to_lower_full_def to_title_full_def is_cased_def)

text \<open>Outside ASCII: U+00E9 is title-cased to U+00C9, and U+00DF to the two letters \<open>Ss\<close>.\<close>

lemma title_latin1: "title [233] = [201] \<and> title [97, 223] = [65, 223] \<and> title [223] = [83, 115]"
  by (simp add: title_def to_lower_full_def to_title_full_def is_cased_def)

section \<open>Facts about the pipeline\<close>

lemma astype_Inr:
  "astype parse rows = Inr t \<Longrightarrow>
     t = map (\<lambda>r. with_date r (projr (to_datetime64 parse (Probability_90_Date r)))) rows \<and>
     (\<forall>r \<in> set rows. \<exists>d. to_datetime64 parse (Probability_90_Date r) = Inr d)"
  by (induction rows arbitrary: t) (auto split: sum.splits)

lemma astype_Inl:
  "(\<exists>e. astype parse rows = Inl e) \<longleftrightarrow>
   (\<exists>r \<in> set rows. \<exists>e. to_datetime64 parse (Probability_90_Date r) = Inl e)"
  by (induction rows) (auto split: sum.splits)

lemma astype_total:
  "\<forall>r \<in> set rows. \<exists>d. to_datetime64 parse (Probability_90_Date r) = Inr d \<Longrightarrow>
   \<exists>t. astype parse rows = Inr t"
  by (induction rows) (auto split: sum.splits)

lemma with_date_sel [simp]:
  "Funn_Status (with_date r d) = Funn_Status r"
  "Channel (with_date r d) = Channel r"
  "Nationality (with_date r d) = Nationality r"
  "Blk_State (with_date r d) = Blk_State r"
  "Funn_Monthcontractperiod (with_date r d) = Funn_Monthcontractperiod r"
  "Funnel_Bandwidth (with_date r d) = Funnel_Bandwidth r"
  "Funnel_SO_No (with_date r d) = Funnel_SO_No r"
  "Probability_90_Date (with_date r d) = d"
  by (simp_all add: with_date_def)

lemma with_date_with_date [simp]: "with_date (with_date r d) e = with_date r e"
  by (simp add: with_date_def)

lemma with_date_Nationality:
  "(with_date r d)\<lparr>Nationality := n\<rparr> = with_date (r\<lparr>Nationality := n\<rparr>) d"
  by (simp add: with_date_def)

lemma indexed_df_rows:
  assumes "indexed_df parse df = Inr rows"
  shows "rows = map (indexed_row parse) (filter (\<lambda>r. keep r \<and> dated parse r) df)"
proof -
  from assms obtain typed where typed: "astype parse (loc_filter df) = Inr typed"
    and ok: "str_accessor_ok (map Nationality df)"
    and rows: "rows = set_index (dropna (map (\<lambda>r. r\<lparr>Nationality := str_title (Nationality r)\<rparr>) typed))"
    by (auto simp: indexed_df_def assign_Nationality_def split: sum.splits if_splits)
  let ?conv = "\<lambda>r. projr (to_datetime64 parse (Probability_90_Date r))"
  from astype_Inr [OF typed]
  have t: "typed = map (\<lambda>r. with_date r (?conv r)) (loc_filter df)"
    and good: "\<forall>r \<in> set (loc_filter df). \<exists>d. to_datetime64 parse (Probability_90_Date r) = Inr d"
    by blast+
  have d: "dated parse r \<longleftrightarrow> ?conv r \<noteq> None" if "r \<in> set (loc_filter df)" for r
    using good that by (auto simp: dated_def split: option.splits)
  have "rows = map (indexed_row parse) (filter (\<lambda>r. ?conv r \<noteq> None) (loc_filter df))"
    unfolding rows t
    by (simp add: set_index_def dropna_def filter_map comp_def indexed_row_def with_date_Nationality)
  also have "filter (\<lambda>r. ?conv r \<noteq> None) (loc_filter df) = filter (dated parse) (loc_filter df)"
    by (rule filter_cong) (simp_all add: d)
  also have "\<dots> = filter (\<lambda>r. keep r \<and> dated parse r) df"
    by (simp add: loc_filter_def conj_commute)
  finally show ?thesis .
qed

lemma process_data_Some:
  "snd (process_data parse df) = Some out \<longleftrightarrow>
   (\<exists>rows counted. indexed_df parse df = Inr rows \<and>
      groupby_resample_count rows = Inr counted \<and>
      out = sort_values (sort_values_desc (query_positive counted)))"
  by (auto simp: process_data_def processed_df_def split: sum.splits)

lemma process_data_None:
  "snd (process_data parse df) = None \<longleftrightarrow> (\<exists>e. processed_df parse df = Inl e)"
  by (auto simp: process_data_def split: sum.splits)

lemma indexed_df_Inl_processed_df:
  "indexed_df parse df = Inl e \<Longrightarrow> processed_df parse df = Inl e"
  by (simp add: processed_df_def)

lemma set_insert_key [simp]: "set (insert_key k ks) = insert k (set ks)"
  by (induction ks) auto

lemma set_sort_keys [simp]: "set (sort_keys ks) = set ks"
  by (induction ks) auto

lemma set_sorts [simp]:
  "set (sort_values t) = set t" "set (sort_values_desc t) = set t"
  by (simp_all add: sort_values_def sort_values_desc_def)

lemma resample_count_mem:
  "(t, n) \<in> set (resample_count g) \<Longrightarrow> \<exists>i. t = i * ns_per_day \<and> n = count_on i g"
  by (auto simp: resample_count_def split: list.splits)

lemma groupby_resample_count_mem:
  assumes "groupby_resample_count rows = Inr counted" and "a \<in> set counted"
  shows "\<exists>i. agg_date a = i * ns_per_day \<and> agg_count a = count_on i (get_group (agg_key a) rows)"
proof -
  from assms(1) have "counted =
      concat (map (\<lambda>k. map (\<lambda>(t, n). \<lparr>agg_key = k, agg_date = t, agg_count = n\<rparr>)
                            (resample_count (get_group k rows)))
                   (group_keys rows)) \<or> counted = []"
    by (auto simp: groupby_resample_count_def split: if_splits)
  with assms(2) obtain k t n where "(t, n) \<in> set (resample_count (get_group k rows))"
    and "a = \<lparr>agg_key = k, agg_date = t, agg_count = n\<rparr>"
    by auto
  then show ?thesis using resample_count_mem [of t n "get_group k rows"] by simp
qed

lemma ns_per_day_neq0 [simp]: "ns_per_day \<noteq> 0"
  by (simp add: ns_per_day_def)

lemma fold_min_le: "x \<in> set (d # ds) \<Longrightarrow> fold min ds d \<le> (x :: int)"
  unfolding Min.set_eq_fold [symmetric] by (rule Min_le) simp_all

lemma le_fold_max: "x \<in> set (d # ds) \<Longrightarrow> (x :: int) \<le> fold max ds d"
  unfolding Max.set_eq_fold [symmetric] by (rule Max_ge) simp_all

lemma resample_count_has_day:
  assumes "r \<in> set g"
  shows "(day_of (Probability_90_Date r) * ns_per_day, count_on (day_of (Probability_90_Date r)) g)
           \<in> set (resample_count g)"
proof -
  let ?days = "map (\<lambda>r. day_of (Probability_90_Date r)) g"
  from assms have mem: "day_of (Probability_90_Date r) \<in> set ?days" by simp
  then obtain d ds where days: "?days = d # ds" by (cases ?days) auto
  with mem have "fold min ds d \<le> day_of (Probability_90_Date r)"
    and "day_of (Probability_90_Date r) \<le> fold max ds d"
    using fold_min_le [of _ d ds] le_fold_max [of _ d ds] by auto
  then have "day_of (Probability_90_Date r) \<in> set [fold min ds d .. fold max ds d]" by simp
  then have "(day_of (Probability_90_Date r) * ns_per_day, count_on (day_of (Probability_90_Date r)) g)
      \<in> (\<lambda>i. (i * ns_per_day, count_on i g)) ` set [fold min ds d .. fold max ds d]"
    by (rule imageI)
  then show ?thesis unfolding resample_count_def days by simp
qed

lemma groupby_resample_count_has_bucket:
  assumes "groupby_resample_count rows = Inr counted" and "r \<in> set rows"
    and "key_complete (key_of r)"
  shows "\<lparr>agg_key = key_of r, agg_date = day_of (Probability_90_Date r) * ns_per_day,
          agg_count = count_on (day_of (Probability_90_Date r)) (get_group (key_of r) rows)\<rparr>
           \<in> set counted"
proof -
  from assms(2) have "rows \<noteq> []" by auto
  with assms(1) have counted: "counted =
      concat (map (\<lambda>k. map (\<lambda>(t, n). \<lparr>agg_key = k, agg_date = t, agg_count = n\<rparr>)
                            (resample_count (get_group k rows)))
                   (group_keys rows))"
    by (auto simp: groupby_resample_count_def split: if_splits)
  from assms(2,3) have key: "key_of r \<in> set (group_keys rows)"
    by (auto simp: group_keys_def)
  from assms(2) have "r \<in> set (get_group (key_of r) rows)"
    by (simp add: get_group_def)
  from resample_count_has_day [OF this] key show ?thesis
    unfolding counted by force
qed

lemma matches_indexed:
  "matches parse a r \<and> Funnel_SO_No r \<noteq> NA \<longleftrightarrow>
   (keep r \<and> dated parse r) \<and> key_of (indexed_row parse r) = agg_key a \<and>
   day_of (Probability_90_Date (indexed_row parse r)) * ns_per_day = agg_date a \<and>
   Funnel_SO_No (indexed_row parse r) \<noteq> NA"
  by (auto simp: matches_def falls_on_def dated_def indexed_row_def key_of_def
      split: sum.splits option.splits)

lemma count_on_indexed:
  "count_on i (get_group k (map f (filter P df))) =
   length (filter (\<lambda>r. P r \<and> key_of (f r) = k \<and> day_of (Probability_90_Date (f r)) = i \<and>
                        Funnel_SO_No (f r) \<noteq> NA) df)"
proof -
  have "count_on i (get_group k (map f (filter P df))) =
        length (filter (\<lambda>r. (P r \<and> key_of (f r) = k) \<and> day_of (Probability_90_Date (f r)) = i \<and>
                        Funnel_SO_No (f r) \<noteq> NA) df)"
    by (simp add: count_on_def get_group_def filter_map comp_def conj_commute conj_left_commute)
  then show ?thesis by (simp add: conj_assoc)
qed

lemma indexed_df_Inr_iff:
  "(\<exists>rows. indexed_df parse df = Inr rows) \<longleftrightarrow>
   (\<forall>r \<in> set (loc_filter df). \<exists>d. to_datetime64 parse (Probability_90_Date r) = Inr d) \<and>
   str_accessor_ok (map Nationality df)"
proof
  assume "\<exists>rows. indexed_df parse df = Inr rows"
  then show "(\<forall>r \<in> set (loc_filter df). \<exists>d. to_datetime64 parse (Probability_90_Date r) = Inr d) \<and>
     str_accessor_ok (map Nationality df)"
    by (auto simp: indexed_df_def assign_Nationality_def split: sum.splits if_splits
        dest!: astype_Inr)
next
  assume a: "(\<forall>r \<in> set (loc_filter df). \<exists>d. to_datetime64 parse (Probability_90_Date r) = Inr d) \<and>
     str_accessor_ok (map Nationality df)"
  then obtain typed where "astype parse (loc_filter df) = Inr typed"
    using astype_total by blast
  with a show "\<exists>rows. indexed_df parse df = Inr rows"
    by (simp add: indexed_df_def assign_Nationality_def)
qed

lemma indexed_rows_loc_filter:
  "filter (\<lambda>r. keep r \<and> dated parse r) df = filter (dated parse) (loc_filter df)"
  by (simp add: loc_filter_def conj_commute)

lemma groupby_resample_count_Nil [simp]: "groupby_resample_count [] = Inr []"
  by (simp add: groupby_resample_count_def)

section \<open>Counts\<close>

text \<open>
  Claim C1, as amended. Whenever \<open>process_data\<close> returns a table, the count of each of its
  rows is the number of raw records that pass the row filter, have the row's five keys
  (with the nationality title-cased), have a date that converts to a time on the row's day,
  and have an order number (\<open>Funnel SO No\<close>) that is not missing.
\<close>

theorem count_is_counted_records:
  assumes "snd (process_data parse df) = Some out" and "a \<in> set out"
  shows "agg_count a = counted_records parse df a"
proof -
  from assms(1) obtain rows counted where rows: "indexed_df parse df = Inr rows"
    and counted: "groupby_resample_count rows = Inr counted"
    and out: "out = sort_values (sort_values_desc (query_positive counted))"
    by (auto simp: process_data_Some)
  from assms(2) out have "a \<in> set counted"
    by (simp add: query_positive_def)
  then obtain i where i: "agg_date a = i * ns_per_day"
    and n: "agg_count a = count_on i (get_group (agg_key a) rows)"
    using groupby_resample_count_mem [OF counted] by blast
  have "agg_count a =
        length (filter (\<lambda>r. (keep r \<and> dated parse r) \<and> key_of (indexed_row parse r) = agg_key a \<and>
                  day_of (Probability_90_Date (indexed_row parse r)) = i \<and>
                  Funnel_SO_No (indexed_row parse r) \<noteq> NA) df)"
    unfolding n indexed_df_rows [OF rows] by (rule count_on_indexed)
  also have "\<dots> = length (filter (\<lambda>r. matches parse a r \<and> Funnel_SO_No r \<noteq> NA) df)"
    by (simp add: matches_indexed i)
  finally show ?thesis by (simp add: counted_records_def)
qed

theorem count_is_counted_records_witness:
  "snd (process_data example_parser scenario_table) = Some [john_doe_row 1704067200000000000 2] \<and>
   john_doe_row 1704067200000000000 2 \<in> set [john_doe_row 1704067200000000000 2] \<and>
   counted_records example_parser scenario_table (john_doe_row 1704067200000000000 2) = 2"
proof -
  have run: "snd (process_data example_parser scenario_table) = Some [john_doe_row 1704067200000000000 2]"
    by code_simp
  have mem: "john_doe_row 1704067200000000000 2 \<in> set [john_doe_row 1704067200000000000 2]"
    by simp
  have "agg_count (john_doe_row 1704067200000000000 2) = 2"
    by (simp add: john_doe_row_def)
  with count_is_counted_records [OF run mem] run mem show ?thesis by simp
qed

text \<open>
  Claim C1 as stated fails: of two records with the same keys on the same day, one without
  an order number, both match the result row, yet the row's count is 1.
\<close>

theorem count_differs_from_matching_records:
  "snd (process_data example_parser missing_order_table) = Some [john_doe_row 1704067200000000000 1] \<and>
   matching_records example_parser missing_order_table (john_doe_row 1704067200000000000 1) = 2"
  by code_simp

text \<open>
  Claim C4. Whenever \<open>process_data\<close> returns a table, every row of it has a positive
  count: its rows are exactly the buckets of the daily resampling whose count is positive,
  so the empty buckets that resampling puts between a group's first and last day are gone.
\<close>

theorem no_zero_count:
  assumes "snd (process_data parse df) = Some out"
  shows "(\<forall>a \<in> set out. 0 < agg_count a) \<and>
     (\<exists>rows counted. indexed_df parse df = Inr rows \<and>
        groupby_resample_count rows = Inr counted \<and>
        set out = {a \<in> set counted. 0 < agg_count a})"
  using assms by (auto simp: process_data_Some query_positive_def)

theorem no_zero_count_witness:
  "snd (process_data example_parser gap_table) =
     Some [john_doe_row 1704067200000000000 1, john_doe_row 1704240000000000000 1] \<and>
   (case indexed_df example_parser gap_table of
      Inl e \<Rightarrow> Inl e
    | Inr rows \<Rightarrow> groupby_resample_count rows) =
     Inr [john_doe_row 1704067200000000000 1, john_doe_row 1704153600000000000 0,
          john_doe_row 1704240000000000000 1] \<and>
   0 < agg_count (john_doe_row 1704067200000000000 1) \<and>
   0 < agg_count (john_doe_row 1704240000000000000 1)"
proof -
  have run: "snd (process_data example_parser gap_table) =
     Some [john_doe_row 1704067200000000000 1, john_doe_row 1704240000000000000 1]"
    by code_simp
  have buckets: "(case indexed_df example_parser gap_table of
      Inl e \<Rightarrow> Inl e
    | Inr rows \<Rightarrow> groupby_resample_count rows) =
     Inr [john_doe_row 1704067200000000000 1, john_doe_row 1704153600000000000 0,
          john_doe_row 1704240000000000000 1]"
    by code_simp
  from no_zero_count [OF run] run buckets show ?thesis by simp
qed

section \<open>Order of the result\<close>

text \<open>
  Claim C5. Whenever \<open>process_data\<close> returns a table, its dates are in non-decreasing
  order and its rows are, as a multiset, the rows that were there before the two sorts: the
  descending sort leaves no trace in the dates' order or in the rows returned. (Among rows
  of equal date no order is promised.)
\<close>

theorem sorted_by_date:
  assumes "snd (process_data parse df) = Some out"
  shows "sorted (map agg_date out) \<and>
    (\<exists>rows counted. indexed_df parse df = Inr rows \<and>
       groupby_resample_count rows = Inr counted \<and>
       mset out = mset (query_positive counted))"
  using assms by (auto simp: process_data_Some sort_values_def sort_values_desc_def)

theorem sorted_by_date_witness:
  "snd (process_data example_parser two_group_table) =
     Some [john_doe_row 1704067200000000000 1, dealer_row 1704240000000000000 1] \<and>
   (case indexed_df example_parser two_group_table of
      Inl e \<Rightarrow> Inl e
    | Inr rows \<Rightarrow> map_sum id query_positive (groupby_resample_count rows)) =
     Inr [dealer_row 1704240000000000000 1, john_doe_row 1704067200000000000 1] \<and>
   sorted (map agg_date [john_doe_row 1704067200000000000 1, dealer_row 1704240000000000000 1])"
proof -
  have run: "snd (process_data example_parser two_group_table) =
     Some [john_doe_row 1704067200000000000 1, dealer_row 1704240000000000000 1]"
    by code_simp
  have before: "(case indexed_df example_parser two_group_table of
      Inl e \<Rightarrow> Inl e
    | Inr rows \<Rightarrow> map_sum id query_positive (groupby_resample_count rows)) =
     Inr [dealer_row 1704240000000000000 1, john_doe_row 1704067200000000000 1]"
    by code_simp
  from sorted_by_date [OF run] run before show ?thesis by blast
qed

section \<open>Which records take part\<close>

text \<open>
  Claim C2. A record survives the row filter exactly when it is in the table, its status
  is not the text \<open>Lost\<close> and its channel is one of ONLINE, INSIDE SALES, DEALER. The
  other records are excluded from the output: two tables with the same surviving records
  give the same result whenever \<open>process_data\<close> returns a table for both.
\<close>

theorem filter_keeps_open_allowed_channels:
  "(r \<in> set (loc_filter df) \<longleftrightarrow>
      r \<in> set df \<and> Funn_Status r \<noteq> Str (ustr ''Lost'') \<and>
      Channel r \<in> {Str (ustr ''ONLINE''), Str (ustr ''INSIDE SALES''), Str (ustr ''DEALER'')}) \<and>
   (loc_filter df = loc_filter df' \<and> snd (process_data parse df) = Some out \<and>
      snd (process_data parse df') = Some out' \<longrightarrow> out = out')"
proof -
  have "out = out'"
    if "loc_filter df = loc_filter df'" "snd (process_data parse df) = Some out"
      "snd (process_data parse df') = Some out'"
  proof -
    from that(2) obtain rows counted where rows: "indexed_df parse df = Inr rows"
      and counted: "groupby_resample_count rows = Inr counted"
      and out: "out = sort_values (sort_values_desc (query_positive counted))"
      by (auto simp: process_data_Some)
    from that(3) obtain rows' counted' where rows': "indexed_df parse df' = Inr rows'"
      and counted': "groupby_resample_count rows' = Inr counted'"
      and out': "out' = sort_values (sort_values_desc (query_positive counted'))"
      by (auto simp: process_data_Some)
    have "rows = rows'"
      unfolding indexed_df_rows [OF rows] indexed_df_rows [OF rows'] indexed_rows_loc_filter
      using that(1) by simp
    with counted counted' out out' show ?thesis by simp
  qed
  then show ?thesis by (auto simp: loc_filter_def keep_def channels_def)
qed

theorem filter_keeps_open_allowed_channels_witness:
  "loc_filter scenario_table = loc_filter (take 2 scenario_table) \<and>
   snd (process_data example_parser scenario_table) = Some [john_doe_row 1704067200000000000 2] \<and>
   snd (process_data example_parser (take 2 scenario_table)) = Some [john_doe_row 1704067200000000000 2] \<and>
   scenario_table ! 2 \<notin> set (loc_filter scenario_table) \<and>
   scenario_table ! 2 \<in> set scenario_table \<and>
   Funn_Status (scenario_table ! 2) = Str (ustr ''Lost'')"
proof -
  have a: "loc_filter scenario_table = loc_filter (take 2 scenario_table)" by code_simp
  have b: "snd (process_data example_parser scenario_table) = Some [john_doe_row 1704067200000000000 2]"
    by code_simp
  have c: "snd (process_data example_parser (take 2 scenario_table)) = Some [john_doe_row 1704067200000000000 2]"
    by code_simp
  have d: "scenario_table ! 2 \<in> set scenario_table" "Funn_Status (scenario_table ! 2) = Str (ustr ''Lost'')"
    by code_simp+
  from filter_keeps_open_allowed_channels
    [of "scenario_table ! 2" scenario_table "take 2 scenario_table" example_parser
        "[john_doe_row 1704067200000000000 2]" "[john_doe_row 1704067200000000000 2]"]
    a b c d show ?thesis by simp
qed

text \<open>
  Claim C3, as amended. The conversion of the date column raises on a value it cannot
  convert: if a record kept by the row filter has such a date, \<open>astype\<close> fails and
  \<open>process_data\<close> returns \<open>None\<close>. A missing date becomes \<open>NaT\<close>. Records whose date is
  \<open>NaT\<close> are excluded from the aggregation whatever their other fields: leaving them out
  of the table does not change the result, whenever \<open>process_data\<close> returns a table for
  both.
\<close>

theorem unparseable_fails_null_excluded:
  "((\<exists>r \<in> set (loc_filter df). \<exists>e. to_datetime64 parse (Probability_90_Date r) = Inl e) \<longrightarrow>
      (\<exists>e. astype parse (loc_filter df) = Inl e) \<and> snd (process_data parse df) = None) \<and>
   to_datetime64 parse NA = Inr None \<and>
   (snd (process_data parse df) = Some out \<and>
    snd (process_data parse (filter (\<lambda>r. \<not> null_date parse r) df)) = Some out' \<longrightarrow> out = out')"
proof -
  have fails: "(\<exists>e. astype parse (loc_filter df) = Inl e) \<and> snd (process_data parse df) = None"
    if "\<exists>r \<in> set (loc_filter df). \<exists>e. to_datetime64 parse (Probability_90_Date r) = Inl e"
  proof -
    from that obtain e where e: "astype parse (loc_filter df) = Inl e"
      using astype_Inl [of parse "loc_filter df"] by blast
    then have "indexed_df parse df = Inl e"
      by (simp add: indexed_df_def)
    then have "processed_df parse df = Inl e"
      by (rule indexed_df_Inl_processed_df)
    with e show ?thesis
      by (auto simp: process_data_None)
  qed
  have same: "out = out'"
    if "snd (process_data parse df) = Some out"
      "snd (process_data parse (filter (\<lambda>r. \<not> null_date parse r) df)) = Some out'"
  proof -
    let ?df' = "filter (\<lambda>r. \<not> null_date parse r) df"
    from that(1) obtain rows counted where rows: "indexed_df parse df = Inr rows"
      and counted: "groupby_resample_count rows = Inr counted"
      and out: "out = sort_values (sort_values_desc (query_positive counted))"
      by (auto simp: process_data_Some)
    from that(2) obtain rows' counted' where rows': "indexed_df parse ?df' = Inr rows'"
      and counted': "groupby_resample_count rows' = Inr counted'"
      and out': "out' = sort_values (sort_values_desc (query_positive counted'))"
      by (auto simp: process_data_Some)
    have "filter (\<lambda>r. keep r \<and> dated parse r) ?df' = filter (\<lambda>r. keep r \<and> dated parse r) df"
      by (auto simp: null_date_def dated_def intro!: filter_cong split: sum.splits option.splits)
    then have "rows = rows'"
      unfolding indexed_df_rows [OF rows] indexed_df_rows [OF rows'] by simp
    with counted counted' out out' show ?thesis by simp
  qed
  from fails same show ?thesis by simp
qed

theorem unparseable_fails_null_excluded_witness:
  "bad_date_table ! 0 \<in> set (loc_filter bad_date_table) \<and>
   to_datetime64 example_parser (Probability_90_Date (bad_date_table ! 0)) =
     Inl (DateParseError (ustr ''not a date'')) \<and>
   snd (process_data example_parser bad_date_table) = None \<and>
   snd (process_data example_parser gap_table) =
     Some [john_doe_row 1704067200000000000 1, john_doe_row 1704240000000000000 1] \<and>
   filter (\<lambda>r. \<not> null_date example_parser r) gap_table = take 2 gap_table \<and>
   snd (process_data example_parser (take 2 gap_table)) =
     Some [john_doe_row 1704067200000000000 1, john_doe_row 1704240000000000000 1]"
proof -
  have a: "bad_date_table ! 0 \<in> set (loc_filter bad_date_table)" by code_simp
  have b: "to_datetime64 example_parser (Probability_90_Date (bad_date_table ! 0)) =
     Inl (DateParseError (ustr ''not a date''))" by code_simp
  have c: "snd (process_data example_parser gap_table) =
     Some [john_doe_row 1704067200000000000 1, john_doe_row 1704240000000000000 1]" by code_simp
  have d: "filter (\<lambda>r. \<not> null_date example_parser r) gap_table = take 2 gap_table" by code_simp
  have e: "snd (process_data example_parser (take 2 gap_table)) =
     Some [john_doe_row 1704067200000000000 1, john_doe_row 1704240000000000000 1]" by code_simp
  have f: "snd (process_data example_parser bad_date_table) = None"
    using unparseable_fails_null_excluded [of bad_date_table example_parser] a b by blast
  from unparseable_fails_null_excluded [of gap_table example_parser] a b c d e f
  show ?thesis by simp
qed

text \<open>
  Claim C3 as stated fails: a kept record whose date is the text \<open>not a date\<close> is not
  given a null date and left out; the conversion raises, and \<open>process_data\<close> logs the
  error and returns \<open>None\<close>.
\<close>

theorem unparseable_date_is_an_error:
  "astype example_parser (loc_filter bad_date_table) = Inl (DateParseError (ustr ''not a date'')) \<and>
   process_data example_parser bad_date_table =
     ([INFO ''Processing data...'',
       ERROR ''Error processing data: {e}'' (DateParseError (ustr ''not a date''))], None)"
  by code_simp

text \<open>
  Claim C10. Whenever \<open>process_data\<close> returns a table, it holds the buckets of positive
  count, and the count of every bucket, empty or not, is the number of non-missing order
  numbers (\<open>Funnel SO No\<close>) among the rows of its group on its day. Every record that passes
  the row filter and has a date is among the grouped rows, whether or not it has an order
  number, and if its five keys are there its day has a bucket: a record without an order
  number is not dropped as a row, and it is not counted.
\<close>

theorem count_is_number_of_order_numbers:
  assumes "snd (process_data parse df) = Some out"
  shows "\<exists>rows counted.
     indexed_df parse df = Inr rows \<and> groupby_resample_count rows = Inr counted \<and>
     set out = {a \<in> set counted. 0 < agg_count a} \<and>
     (\<forall>a \<in> set counted.
        agg_count a =
          length (filter (\<lambda>v. v \<noteq> NA)
            (map Funnel_SO_No
              (filter (\<lambda>r. key_of r = agg_key a \<and>
                           day_of (Probability_90_Date r) * ns_per_day = agg_date a) rows)))) \<and>
     (\<forall>r \<in> set df. keep r \<and> dated parse r \<longrightarrow>
        indexed_row parse r \<in> set rows \<and>
        (key_complete (key_of (indexed_row parse r)) \<longrightarrow>
           (\<exists>a \<in> set counted. agg_key a = key_of (indexed_row parse r) \<and>
              agg_date a = day_of (Probability_90_Date (indexed_row parse r)) * ns_per_day)))"
proof -
  from assms obtain rows counted where rows: "indexed_df parse df = Inr rows"
    and counted: "groupby_resample_count rows = Inr counted"
    and out: "out = sort_values (sort_values_desc (query_positive counted))"
    by (auto simp: process_data_Some)
  from out have positive: "set out = {a \<in> set counted. 0 < agg_count a}"
    by (auto simp: query_positive_def)
  have cnt: "agg_count a =
          length (filter (\<lambda>v. v \<noteq> NA)
            (map Funnel_SO_No
              (filter (\<lambda>r. key_of r = agg_key a \<and>
                           day_of (Probability_90_Date r) * ns_per_day = agg_date a) rows)))"
    if "a \<in> set counted" for a
  proof -
    from that obtain i where i: "agg_date a = i * ns_per_day"
      and n: "agg_count a = count_on i (get_group (agg_key a) rows)"
      using groupby_resample_count_mem [OF counted] by blast
    show ?thesis
      unfolding n i
      by (simp add: count_on_def get_group_def filter_map comp_def conj_commute conj_left_commute)
  qed
  have kept: "indexed_row parse r \<in> set rows" if "r \<in> set df" "keep r" "dated parse r" for r
    unfolding indexed_df_rows [OF rows] using that by simp
  have bucket: "\<exists>a \<in> set counted. agg_key a = key_of (indexed_row parse r) \<and>
        agg_date a = day_of (Probability_90_Date (indexed_row parse r)) * ns_per_day"
    if "r \<in> set df" "keep r" "dated parse r" "key_complete (key_of (indexed_row parse r))" for r
  proof -
    let ?a = "\<lparr>agg_key = key_of (indexed_row parse r),
        agg_date = day_of (Probability_90_Date (indexed_row parse r)) * ns_per_day,
        agg_count = count_on (day_of (Probability_90_Date (indexed_row parse r)))
                      (get_group (key_of (indexed_row parse r)) rows)\<rparr>"
    have "?a \<in> set counted"
      by (rule groupby_resample_count_has_bucket [OF counted kept [OF that(1-3)] that(4)])
    moreover have "agg_key ?a = key_of (indexed_row parse r) \<and>
        agg_date ?a = day_of (Probability_90_Date (indexed_row parse r)) * ns_per_day"
      by simp
    ultimately show ?thesis by blast
  qed
  from rows counted positive cnt kept bucket show ?thesis by blast
qed

text \<open>
  In the table of two open records on one day, the second without an order number, both
  records are grouped rows, their day has one bucket, and its count is 1.
\<close>

theorem count_is_number_of_order_numbers_witness:
  "snd (process_data example_parser missing_order_table) =
     Some [john_doe_row 1704067200000000000 1] \<and>
   indexed_df example_parser missing_order_table =
     Inr (map (indexed_row example_parser) missing_order_table) \<and>
   groupby_resample_count (map (indexed_row example_parser) missing_order_table) =
     Inr [john_doe_row 1704067200000000000 1] \<and>
   map Funnel_SO_No (map (indexed_row example_parser) missing_order_table) = [Num 1, NA] \<and>
   length (filter (\<lambda>v. v \<noteq> NA)
     (map Funnel_SO_No
       (filter (\<lambda>r. key_of r = john_doe_key \<and>
                    day_of (Probability_90_Date r) * ns_per_day = 1704067200000000000)
          (map (indexed_row example_parser) missing_order_table)))) = 1"
proof -
  have rows: "indexed_df example_parser missing_order_table =
     Inr (map (indexed_row example_parser) missing_order_table)"
    by code_simp
  have counted: "groupby_resample_count (map (indexed_row example_parser) missing_order_table) =
     Inr [john_doe_row 1704067200000000000 1]"
    by code_simp
  have orders: "map Funnel_SO_No (map (indexed_row example_parser) missing_order_table) = [Num 1, NA]"
    by code_simp
  have run: "snd (process_data example_parser missing_order_table) =
     Some [john_doe_row 1704067200000000000 1]"
    by code_simp
  from count_is_number_of_order_numbers [OF run] rows counted
  have "agg_count (john_doe_row 1704067200000000000 1) =
     length (filter (\<lambda>v. v \<noteq> NA)
       (map Funnel_SO_No
         (filter (\<lambda>r. key_of r = agg_key (john_doe_row 1704067200000000000 1) \<and>
                      day_of (Probability_90_Date r) * ns_per_day =
                      agg_date (john_doe_row 1704067200000000000 1))
            (map (indexed_row example_parser) missing_order_table))))"
    by simp
  then have "length (filter (\<lambda>v. v \<noteq> NA)
     (map Funnel_SO_No
       (filter (\<lambda>r. key_of r = john_doe_key \<and>
                    day_of (Probability_90_Date r) * ns_per_day = 1704067200000000000)
          (map (indexed_row example_parser) missing_order_table)))) = 1"
    by (simp add: john_doe_row_def)
  with rows counted orders run show ?thesis by simp
qed

section \<open>Empty results and failures\<close>

text \<open>
  Claim C7, as amended. Provided pandas accepts the nationality column of the raw table as
  text, \<open>process_data\<close> returns the empty table, without an error, for every table that is
  empty, or whose records are all removed by the row filter, or whose remaining records
  all have a null date.
\<close>

theorem nothing_left_gives_empty_table:
  assumes "str_accessor_ok (map Nationality df)"
    and "df = [] \<or> loc_filter df = [] \<or>
         list_all (\<lambda>r. to_datetime64 parse (Probability_90_Date r) = Inr None) (loc_filter df)"
  shows "process_data parse df =
     ([INFO ''Processing data...'', INFO ''Data processed successfully''], Some [])"
proof -
  have null: "\<forall>r \<in> set (loc_filter df). to_datetime64 parse (Probability_90_Date r) = Inr None"
  proof (cases "loc_filter df = []")
    case True
    then show ?thesis by simp
  next
    case False
    with assms(2) show ?thesis by (auto simp: loc_filter_def list_all_iff)
  qed
  then obtain rows where rows: "indexed_df parse df = Inr rows"
    using indexed_df_Inr_iff [of parse df] assms(1) by auto
  have "filter (dated parse) (loc_filter df) = []"
    using null by (auto simp: filter_empty_conv dated_def)
  then have "rows = []"
    unfolding indexed_df_rows [OF rows] indexed_rows_loc_filter by simp
  with rows show ?thesis
    by (simp add: process_data_def processed_df_def query_positive_def sort_values_def
        sort_values_desc_def)
qed

theorem nothing_left_gives_empty_table_witness:
  "str_accessor_ok (map Nationality (drop 2 gap_table)) \<and>
   list_all (\<lambda>r. to_datetime64 example_parser (Probability_90_Date r) = Inr None)
     (loc_filter (drop 2 gap_table)) \<and>
   loc_filter (drop 2 gap_table) = drop 2 gap_table \<and>
   process_data example_parser (drop 2 gap_table) =
     ([INFO ''Processing data...'', INFO ''Data processed successfully''], Some [])"
proof -
  have a: "str_accessor_ok (map Nationality (drop 2 gap_table))" by code_simp
  have b: "list_all (\<lambda>r. to_datetime64 example_parser (Probability_90_Date r) = Inr None)
     (loc_filter (drop 2 gap_table))" by code_simp
  have c: "loc_filter (drop 2 gap_table) = drop 2 gap_table" by code_simp
  from nothing_left_gives_empty_table [of "drop 2 gap_table" example_parser] a b c
  show ?thesis by simp
qed

text \<open>
  Claim C7 as stated fails: in a table of one lost record whose nationality is missing the
  row filter removes every record, yet the \<open>.str\<close> accessor refuses the nationality column
  (it holds no text) and \<open>process_data\<close> logs the \<open>AttributeError\<close> and returns \<open>None\<close>.
\<close>

theorem no_text_nationality_fails:
  "loc_filter no_text_table = [] \<and>
   process_data example_parser no_text_table =
     ([INFO ''Processing data...'', ERROR ''Error processing data: {e}'' AttributeError], None)"
  by code_simp

text \<open>
  Failures inside the grouping: a record with a date but without one of its keys forms no
  group, and a record dated on the last day \<open>datetime64[ns]\<close> holds overflows the span;
  \<open>process_data\<close> logs the exception and returns \<open>None\<close> in both cases. A date given as the
  number \<open>2^63\<close> converts to \<open>NaT\<close>, the record is dropped and the empty table returned.
\<close>

lemma no_group_is_an_error:
  "process_data example_parser no_group_table =
     ([INFO ''Processing data...'', ERROR ''Error processing data: {e}'' UndefinedVariableError],
      None)"
  by code_simp

lemma last_day_is_an_error:
  "process_data example_parser last_day_table =
     ([INFO ''Processing data...'', ERROR ''Error processing data: {e}'' OverflowError], None)"
  by code_simp

lemma wrapped_date_is_dropped:
  "process_data example_parser wrapped_date_table =
     ([INFO ''Processing data...'', INFO ''Data processed successfully''], Some [])"
  by code_simp

text \<open>
  Claim C9 does not hold of the code. \<open>read_bo\<close> and \<open>export_to_csv\<close> catch the exception
  and return \<open>None\<close>, but they do not log it: \<open>logging.error(msg, e)\<close> is given a message
  without a placeholder for \<open>e\<close>, so formatting the record fails and no error line is
  written. \<open>process_data\<close>, which formats the exception into the message itself, does log
  it.
\<close>

theorem loader_and_writer_log_no_error_line:
  "read_bo unreadable ''Z:/funnel.xlsx'' =
     ([INFO ''Reading file...'',
       Logging_error ''Error reading file, maybe check VPN. Error: '' (OSError ''Z:/funnel.xlsx'')],
      None) \<and>
   export_to_csv unwritable [] ''processed_bo.csv'' =
     ([INFO ''Exporting to CSV...'',
       Logging_error ''Error exporting to CSV: '' (OSError ''processed_bo.csv'')], ()) \<and>
   process_data example_parser bad_date_table =
     ([INFO ''Processing data...'',
       ERROR ''Error processing data: {e}'' (DateParseError (ustr ''not a date''))], None)"
  by code_simp

section \<open>Conversion for the sheet\<close>

text \<open>Every missing value but one is turned into the empty text.\<close>

lemma other_missing_values_become_empty_text:
  "isna v \<Longrightarrow> v \<noteq> np_floating NaN \<Longrightarrow> convert_to_serializable v = PyStr []"
  by (cases v) auto

text \<open>
  Claim C8 does not hold of the code: a NumPy float that is \<open>NaN\<close> is a missing value,
  yet the test for NumPy floats comes before the test for missing values, so it is
  returned as the Python float \<open>NaN\<close>; the Python float \<open>NaN\<close> is turned into the empty
  text.
\<close>

theorem numpy_nan_is_returned_as_nan:
  "isna (np_floating NaN) \<and>
   convert_to_serializable (np_floating NaN) = PyFloat NaN \<and>
   convert_to_serializable (val_float NaN) = PyStr []"
  by simp

end
